theory Spec2Isabelle
  imports Complex_Main "HOL-Library.Multiset"
begin

section \<open>Conventions of the embedding\<close>

text \<open>
  The three scripts \<^verbatim>\<open>hitters.py\<close>, \<^verbatim>\<open>fulldata.py\<close> and \<^verbatim>\<open>soft_matchups.py\<close> are linear
  pipelines over JSON responses and pandas frames.  They are embedded as follows.

  \<^item> A JSON object is a record.  A key read with a subscript (\<^verbatim>\<open>s["player"]["id"]\<close>) is
    a field of the record when the script never survives its absence and the claims do not
    depend on it; a key read with \<^verbatim>\<open>.get\<close>, or a key of the \<^verbatim>\<open>stat\<close> dictionary (which one
    script subscripts and the other reads with \<^verbatim>\<open>.get\<close>), is a field of option type,
    \<open>None\<close> meaning that the key is missing.  A value has the type the service documents
    for it; a JSON \<^verbatim>\<open>null\<close> under a key that is present is not modelled.
  \<^item> The batted-ball frame that \<^verbatim>\<open>statcast\<close> returns is a parameter too: a list of samples,
    which stands for a frame that has the columns \<^verbatim>\<open>batter\<close>, \<^verbatim>\<open>launch_speed\<close> and
    \<^verbatim>\<open>launch_angle\<close> even when it has no row.
  \<^item> A response of a remote service is a parameter of the function that requests it; a
    transport failure (\<^verbatim>\<open>raise_for_status\<close>) is outside the model.
  \<^item> A pandas column is a list, a frame built from a list of dictionaries is the list of
    its rows, and \<^verbatim>\<open>NaN\<close>/\<^verbatim>\<open>None\<close> in a numeric column is \<open>None\<close>.  A frame built from
    the empty list has no columns, so subscripting it with a column name raises
    \<^verbatim>\<open>KeyError\<close>; the model writes this branch out wherever the script subscripts a frame
    that may be empty.
  \<^item> Python floats are read as exact rationals: comparisons are exact on them anyway, and
    sums, quotients and \<^verbatim>\<open>round(x, 4)\<close> are taken in exact arithmetic.
  \<^item> A Python exception is a value of \<open>py_error\<close>, returned as \<open>Inl\<close>.
\<close>

datatype py_error = IndexError | KeyError | ValueError | FileNotFoundError | BadZipFile

definition get_list :: "'a list option \<Rightarrow> 'a list" where
  \<comment> \<open>\<^verbatim>\<open>d.get(key, [])\<close>\<close>
  "get_list v = (case v of None \<Rightarrow> [] | Some xs \<Rightarrow> xs)"

section \<open>Batted-ball samples and the barrel flag\<close>

record sample =
  batter :: int
  launch_speed :: "rat option"
  launch_angle :: "rat option"

subsection \<open>The pandas column operations the scripts use\<close>

definition fillna :: "rat \<Rightarrow> rat option list \<Rightarrow> rat list" where
  \<comment> \<open>\<^verbatim>\<open>col.fillna(d)\<close>\<close>
  "fillna d col = map (\<lambda>v. case v of None \<Rightarrow> d | Some x \<Rightarrow> x) col"

definition series_ge :: "rat list \<Rightarrow> rat \<Rightarrow> bool list" where
  \<comment> \<open>\<^verbatim>\<open>col >= c\<close>\<close>
  "series_ge col c = map (\<lambda>x. c \<le> x) col"

definition between :: "rat list \<Rightarrow> rat \<Rightarrow> rat \<Rightarrow> bool list" where
  \<comment> \<open>\<^verbatim>\<open>col.between(lo, hi)\<close>, both ends inclusive\<close>
  "between col lo hi = map (\<lambda>x. lo \<le> x \<and> x \<le> hi) col"

definition series_and :: "bool list \<Rightarrow> bool list \<Rightarrow> bool list" where
  \<comment> \<open>\<^verbatim>\<open>a & b\<close>\<close>
  "series_and a b = map (\<lambda>(p, q). p \<and> q) (zip a b)"

definition series_or :: "bool list \<Rightarrow> bool list \<Rightarrow> bool list" where
  \<comment> \<open>\<^verbatim>\<open>a | b\<close>\<close>
  "series_or a b = map (\<lambda>(p, q). p \<or> q) (zip a b)"

definition astype_int :: "bool list \<Rightarrow> int list" where
  \<comment> \<open>\<^verbatim>\<open>col.astype(int)\<close>\<close>
  "astype_int col = map (\<lambda>p. if p then 1 else 0) col"

definition mean_skipna :: "rat option list \<Rightarrow> rat option" where
  \<comment> \<open>\<^verbatim>\<open>mean()\<close> of one group: missing entries are skipped, and the mean of no entry
      is missing\<close>
  "mean_skipna vs =
     (let xs = List.map_filter (\<lambda>v. v) vs
      in if xs = [] then None else Some (sum_list xs / of_nat (length xs)))"

definition group_of :: "int list \<Rightarrow> 'a list \<Rightarrow> int \<Rightarrow> 'a list" where
  \<comment> \<open>the entries of a column whose key is \<open>k\<close>\<close>
  "group_of keys col k = map snd (filter (\<lambda>kv. fst kv = k) (zip keys col))"

definition groupby_mean :: "int list \<Rightarrow> rat option list \<Rightarrow> int \<Rightarrow> rat option option" where
  \<comment> \<open>\<^verbatim>\<open>df.groupby(key)[col].mean()\<close>: a series indexed by the keys that occur\<close>
  "groupby_mean keys col k =
     (let grp = group_of keys col k
      in if grp = [] then None else Some (mean_skipna grp))"

definition series_map :: "int list \<Rightarrow> (int \<Rightarrow> rat option option) \<Rightarrow> rat option list" where
  \<comment> \<open>\<^verbatim>\<open>ids.map(series)\<close>: an identifier that is not in the index maps to \<^verbatim>\<open>NaN\<close>\<close>
  "series_map ids m = map (\<lambda>k. case m k of None \<Rightarrow> None | Some v \<Rightarrow> v) ids"

subsection \<open>\<^verbatim>\<open>compute_barrel\<close> (hitters.py) and the inline copy in fulldata.py\<close>

definition compute_barrel :: "sample list \<Rightarrow> int list" where
  "compute_barrel df_sc =
     (let speed = fillna 0 (map launch_speed df_sc);
          angle = fillna 0 (map launch_angle df_sc);
          cond1 = series_and (series_ge speed 98) (between angle 26 30);
          cond2 = series_and (series_ge speed 105) (between angle 19 26);
          cond3 = series_and (series_ge speed 109) (between angle 13 19)
      in astype_int (series_or (series_or cond1 cond2) cond3))"

definition top75_barrel_flag :: "sample list \<Rightarrow> int list" where
  \<comment> \<open>fulldata.py, lines 54 to 59: the column \<^verbatim>\<open>sc["barrel_flag"]\<close>\<close>
  "top75_barrel_flag sc =
     (let sp = fillna 0 (map launch_speed sc);
          ag = fillna 0 (map launch_angle sc);
          cond1 = series_and (series_ge sp 98) (between ag 26 30);
          cond2 = series_and (series_ge sp 105) (between ag 19 26);
          cond3 = series_and (series_ge sp 109) (between ag 13 19)
      in astype_int (series_or (series_or cond1 cond2) cond3))"

section \<open>Leaderboards\<close>

record split_player =
  player_id :: int
  fullName :: string

record stat_dict =
  homeRuns :: "int option"
  gamesPlayed :: "int option"
  avg :: "string option"
  slg :: "string option"
  atBats :: "int option"
  strikeOuts :: "int option"
  era :: "string option"
  inningsPitched :: "string option"
  wins :: "int option"
  losses :: "int option"

record split =
  player :: split_player
  stat :: stat_dict

record stat_group =
  splits :: "split list option"

record stats_response =
  stats :: "stat_group list option"

record player_row =
  Player_ID :: int
  Batter :: string
  HRs :: "int option"
  Games :: "int option"
  AVG :: "string option"
  SLG :: "string option"
  HR_pct :: "rat option"
  AB :: int

record enriched_row = player_row +
  Barrel_pct :: "rat option"
  Avg_Exit_Vel :: "rat option"

definition round_half_even :: "rat \<Rightarrow> int" where
  "round_half_even x =
     (let f = \<lfloor>x\<rfloor>; d = x - of_int f
      in if d < 1 / 2 then f else if 1 / 2 < d then f + 1 else if even f then f else f + 1)"

definition round4 :: "rat \<Rightarrow> rat" where
  \<comment> \<open>\<^verbatim>\<open>round(x, 4)\<close>\<close>
  "round4 x = of_int (round_half_even (x * 10000)) / 10000"

definition first_splits :: "stats_response \<Rightarrow> py_error + split list" where
  \<comment> \<open>\<^verbatim>\<open>resp.json().get("stats", [])[0].get("splits", [])\<close>\<close>
  "first_splits resp =
     (case get_list (stats resp) of
        [] \<Rightarrow> Inl IndexError
      | g # _ \<Rightarrow> Inr (get_list (splits g)))"

fun collect :: "('a \<Rightarrow> py_error + 'b) \<Rightarrow> 'a list \<Rightarrow> py_error + 'b list" where
  \<comment> \<open>a list comprehension whose element may raise: the first exception ends it\<close>
  "collect f [] = Inr []"
| "collect f (x # xs) =
     (case f x of
        Inl e \<Rightarrow> Inl e
      | Inr y \<Rightarrow> (case collect f xs of Inl e \<Rightarrow> Inl e | Inr ys \<Rightarrow> Inr (y # ys)))"



definition top75_row :: "split \<Rightarrow> player_row" where
  \<comment> \<open>fulldata.py, lines 31 to 43: one iteration of the loop over the splits\<close>
  "top75_row s =
     (let pl = player s; st = stat s;
          ab = (case atBats st of None \<Rightarrow> 0 | Some n \<Rightarrow> n);
          hr_pct = (if 0 < ab
                    then Some (round4 (of_int (case homeRuns st of None \<Rightarrow> 0 | Some h \<Rightarrow> h) /
                                       of_int ab))
                    else None)
      in \<lparr>Player_ID = player_id pl, Batter = fullName pl,
          HRs = homeRuns st, Games = gamesPlayed st, AVG = avg st, SLG = slg st,
          HR_pct = hr_pct, AB = ab\<rparr>)"

definition top75_base :: "stats_response \<Rightarrow> py_error + player_row list" where
  \<comment> \<open>fulldata.py, lines 28 to 44: the frame \<^verbatim>\<open>df\<close> before the enrichment\<close>
  "top75_base resp =
     (case first_splits resp of
        Inl e \<Rightarrow> Inl e
      | Inr ss \<Rightarrow> Inr (map top75_row ss))"

section \<open>Enrichment\<close>

definition add_columns ::
  "player_row list \<Rightarrow> rat option list \<Rightarrow> rat option list \<Rightarrow> enriched_row list" where
  \<comment> \<open>the two assignments \<^verbatim>\<open>df["Barrel%"] = ...\<close> and \<^verbatim>\<open>df["Avg_Exit_Vel"] = ...\<close>\<close>
  "add_columns df bs es =
     map (\<lambda>(r, b, e). player_row.extend r \<lparr>Barrel_pct = b, Avg_Exit_Vel = e\<rparr>)
       (zip df (zip bs es))"

definition enrich_top50 :: "player_row list \<Rightarrow> sample list \<Rightarrow> py_error + enriched_row list" where
  \<comment> \<open>hitters.py, lines 121 to 131; \<open>sc\<close> is what \<^verbatim>\<open>statcast\<close> returned\<close>
  "enrich_top50 df_top50 sc =
     (let barrel_flag = compute_barrel sc;
          barrel_map = groupby_mean (map batter sc) (map (\<lambda>f. Some (of_int f)) barrel_flag);
          ev_map = groupby_mean (map batter sc) (map launch_speed sc)
      in if df_top50 = [] then Inl KeyError
         else Inr (add_columns df_top50
                     (series_map (map Player_ID df_top50) barrel_map)
                     (series_map (map Player_ID df_top50) ev_map)))"

definition fetch_top75_and_enrich ::
  "stats_response \<Rightarrow> sample list \<Rightarrow> py_error + enriched_row list" where
  "fetch_top75_and_enrich resp sc =
     (case top75_base resp of
        Inl e \<Rightarrow> Inl e
      | Inr df \<Rightarrow>
          (let barrel_flag = top75_barrel_flag sc;
               barrel_map = groupby_mean (map batter sc) (map (\<lambda>f. Some (of_int f)) barrel_flag);
               ev_map = groupby_mean (map batter sc) (map launch_speed sc)
           in if df = [] then Inl KeyError
              else Inr (add_columns df
                          (series_map (map Player_ID df) barrel_map)
                          (series_map (map Player_ID df) ev_map))))"

section \<open>Pitcher leaderboard\<close>

record pitcher_row =
  P_Pitcher :: string
  P_Player_ID :: int
  P_SO :: int
  P_ERA :: string
  P_Games :: int
  P_IP :: string
  P_Wins :: int
  P_Losses :: int

definition pitcher_row_of :: "split \<Rightarrow> py_error + pitcher_row" where
  \<comment> \<open>hitters.py, lines 85 to 94: one dictionary of \<^verbatim>\<open>fetch_top50_pitchers\<close>\<close>
  "pitcher_row_of s =
     (case (strikeOuts (stat s), era (stat s), gamesPlayed (stat s),
            inningsPitched (stat s), wins (stat s), losses (stat s)) of
        (Some so, Some e, Some g, Some ip, Some w, Some l) \<Rightarrow>
          Inr \<lparr>P_Pitcher = fullName (player s), P_Player_ID = player_id (player s),
               P_SO = so, P_ERA = e, P_Games = g, P_IP = ip, P_Wins = w, P_Losses = l\<rparr>
      | _ \<Rightarrow> Inl KeyError)"

definition fetch_top50_pitchers :: "stats_response \<Rightarrow> py_error + pitcher_row list" where
  "fetch_top50_pitchers resp =
     (case first_splits resp of
        Inl e \<Rightarrow> Inl e
      | Inr ss \<Rightarrow> collect pitcher_row_of ss)"

section \<open>Schedule and matchups\<close>

record probable_pitcher =
  pp_id :: "int option"
  pp_fullName :: "string option"

record team_side =
  team_name :: string
  probablePitcher :: "probable_pitcher option"

record game =
  gamePk :: int
  home :: team_side
  away :: team_side

record date_entry =
  games :: "game list option"

record schedule_response =
  dates :: "date_entry list option"

text \<open>
  A cell of a column that holds Python objects of several types: the matchup builder mixes
  integers and strings in one column.
\<close>

datatype cell = CNone | CInt int | CStr string

record matchup_base =
  Home_Team :: string
  Away_Team :: string
  Home_Starter :: string
  Home_Starter_ID :: cell
  Away_Starter :: string
  Away_Starter_ID :: cell

record matchup_row = matchup_base +
  Home_ERA :: cell
  Home_SO :: cell
  Away_ERA :: cell
  Away_SO :: cell

definition pitcher_name :: "probable_pitcher option \<Rightarrow> string" where
  \<comment> \<open>\<^verbatim>\<open>side.get("probablePitcher", {}).get("fullName", "")\<close>\<close>
  "pitcher_name pp =
     (case pp of
        None \<Rightarrow> ''''
      | Some p \<Rightarrow> (case pp_fullName p of None \<Rightarrow> '''' | Some n \<Rightarrow> n))"

definition pitcher_id_or_empty :: "probable_pitcher option \<Rightarrow> cell" where
  \<comment> \<open>\<^verbatim>\<open>side.get("probablePitcher", {}).get("id", "")\<close>\<close>
  "pitcher_id_or_empty pp =
     (case pp of
        None \<Rightarrow> CStr ''''
      | Some p \<Rightarrow> (case pp_id p of None \<Rightarrow> CStr '''' | Some i \<Rightarrow> CInt i))"

definition matchup_of :: "game \<Rightarrow> matchup_base" where
  \<comment> \<open>hitters.py, lines 176 to 187: one iteration of the loop over the games\<close>
  "matchup_of g =
     \<lparr>Home_Team = team_name (home g), Away_Team = team_name (away g),
      Home_Starter = pitcher_name (probablePitcher (home g)),
      Home_Starter_ID = pitcher_id_or_empty (probablePitcher (home g)),
      Away_Starter = pitcher_name (probablePitcher (away g)),
      Away_Starter_ID = pitcher_id_or_empty (probablePitcher (away g))\<rparr>"

definition to_dict_index :: "pitcher_row list \<Rightarrow> py_error + (int \<Rightarrow> pitcher_row option)" where
  \<comment> \<open>\<^verbatim>\<open>pitcher_stats.set_index("Player_ID").to_dict(orient="index")\<close>: a frame with no
      column has no \<^verbatim>\<open>Player_ID\<close>, and pandas refuses an index that is not unique\<close>
  "to_dict_index pitcher_stats =
     (if pitcher_stats = [] then Inl KeyError
      else if \<not> distinct (map P_Player_ID pitcher_stats) then Inl ValueError
      else Inr (map_of (map (\<lambda>r. (P_Player_ID r, r)) pitcher_stats)))"

definition lookup_stats :: "(int \<Rightarrow> pitcher_row option) \<Rightarrow> cell \<Rightarrow> pitcher_row option" where
  \<comment> \<open>\<^verbatim>\<open>stats_map.get(pid, {})\<close>: the keys are integers, so no string is among them\<close>
  "lookup_stats stats_map pid = (case pid of CInt i \<Rightarrow> stats_map i | _ \<Rightarrow> None)"

definition era_cell :: "(int \<Rightarrow> pitcher_row option) \<Rightarrow> cell \<Rightarrow> cell" where
  \<comment> \<open>\<^verbatim>\<open>stats_map.get(pid, {}).get("ERA", "")\<close>\<close>
  "era_cell stats_map pid =
     (case lookup_stats stats_map pid of None \<Rightarrow> CStr '''' | Some r \<Rightarrow> CStr (P_ERA r))"

definition so_cell :: "(int \<Rightarrow> pitcher_row option) \<Rightarrow> cell \<Rightarrow> cell" where
  \<comment> \<open>\<^verbatim>\<open>stats_map.get(pid, {}).get("SO", "")\<close>\<close>
  "so_cell stats_map pid =
     (case lookup_stats stats_map pid of None \<Rightarrow> CStr '''' | Some r \<Rightarrow> CInt (P_SO r))"

definition add_starter_stats :: "(int \<Rightarrow> pitcher_row option) \<Rightarrow> matchup_base \<Rightarrow> matchup_row" where
  \<comment> \<open>hitters.py, lines 194 to 196, on one row\<close>
  "add_starter_stats stats_map m =
     matchup_base.extend m
       \<lparr>Home_ERA = era_cell stats_map (Home_Starter_ID m),
        Home_SO = so_cell stats_map (Home_Starter_ID m),
        Away_ERA = era_cell stats_map (Away_Starter_ID m),
        Away_SO = so_cell stats_map (Away_Starter_ID m)\<rparr>"

definition fetch_today_matchups ::
  "schedule_response \<Rightarrow> stats_response \<Rightarrow> py_error + matchup_row list" where
  \<comment> \<open>\<open>pitchers\<close> is the response \<^verbatim>\<open>fetch_top50_pitchers\<close> would get; it is requested only
      when there is a matchup\<close>
  "fetch_today_matchups resp pitchers =
     (case get_list (dates resp) of
        [] \<Rightarrow> Inl IndexError
      | d # _ \<Rightarrow>
          (let matchups = map matchup_of (get_list (games d))
           in if matchups = [] then Inr []
              else (case fetch_top50_pitchers pitchers of
                      Inl e \<Rightarrow> Inl e
                    | Inr pitcher_stats \<Rightarrow>
                        (case to_dict_index pitcher_stats of
                           Inl e \<Rightarrow> Inl e
                         | Inr stats_map \<Rightarrow> Inr (map (add_starter_stats stats_map) matchups)))))"

section \<open>Softness ranker (soft\_matchups.py)\<close>

definition fetch_schedule :: "schedule_response \<Rightarrow> game list" where
  "fetch_schedule resp =
     (case get_list (dates resp) of
        [] \<Rightarrow> []
      | d # _ \<Rightarrow> get_list (games d))"

record person_split =
  ps_stat :: "stat_dict option"

record person_stats =
  ps_splits :: "person_split list option"

record person =
  p_stats :: "person_stats list option"

record people_response =
  people :: "person list option"

text \<open>
  \<^verbatim>\<open>fetch_pitcher_era\<close> takes two parameters that stand for what lies outside the
  repository: \<open>people_of\<close>, the response of the per-pitcher request, and \<open>py_float\<close>,
  Python's \<^verbatim>\<open>float\<close> on a string (\<open>None\<close> when it raises \<^verbatim>\<open>ValueError\<close>).
\<close>

definition fetch_pitcher_era ::
  "(int \<Rightarrow> people_response) \<Rightarrow> (string \<Rightarrow> rat option) \<Rightarrow> int option \<Rightarrow> rat option" where
  "fetch_pitcher_era people_of py_float pid =
     (case pid of
        None \<Rightarrow> None
      | Some i \<Rightarrow>
          (case get_list (people (people_of i)) of
             [] \<Rightarrow> None
           | p # _ \<Rightarrow>
               (case get_list (p_stats p) of
                  [] \<Rightarrow> None
                | st # _ \<Rightarrow>
                    (case get_list (ps_splits st) of
                       [] \<Rightarrow> None
                     | sp # _ \<Rightarrow>
                         (case ps_stat sp of
                            None \<Rightarrow> None
                          | Some d \<Rightarrow> (case era d of None \<Rightarrow> None | Some e \<Rightarrow> py_float e))))))"

definition softness_of :: "rat option \<Rightarrow> rat option \<Rightarrow> rat option" where
  \<comment> \<open>soft\_matchups.py, lines 65 to 68\<close>
  "softness_of home_era away_era =
     (let eras = List.map_filter (\<lambda>e. e) [home_era, away_era]
      in if eras = [] then None else Some (Max (set eras)))"

record soft_row =
  S_Away :: string
  S_Home :: string
  S_Away_Starter :: string
  S_Away_ERA :: "rat option"
  S_Home_Starter :: string
  S_Home_ERA :: "rat option"
  Softness :: "rat option"

definition pitcher_id :: "probable_pitcher option \<Rightarrow> int option" where
  \<comment> \<open>\<^verbatim>\<open>side.get("probablePitcher", {}).get("id")\<close>\<close>
  "pitcher_id pp = (case pp of None \<Rightarrow> None | Some p \<Rightarrow> pp_id p)"

definition soft_row_of ::
  "(int \<Rightarrow> people_response) \<Rightarrow> (string \<Rightarrow> rat option) \<Rightarrow> game \<Rightarrow> soft_row" where
  \<comment> \<open>soft\_matchups.py, lines 57 to 80: one iteration of the loop over the games\<close>
  "soft_row_of people_of py_float g =
     (let home_era = fetch_pitcher_era people_of py_float (pitcher_id (probablePitcher (home g)));
          away_era = fetch_pitcher_era people_of py_float (pitcher_id (probablePitcher (away g)))
      in \<lparr>S_Away = team_name (away g), S_Home = team_name (home g),
          S_Away_Starter = pitcher_name (probablePitcher (away g)), S_Away_ERA = away_era,
          S_Home_Starter = pitcher_name (probablePitcher (home g)), S_Home_ERA = home_era,
          Softness = softness_of home_era away_era\<rparr>)"

text \<open>
  \<^verbatim>\<open>df.sort_values(col, ascending=False)\<close> as pandas computes it: the rows whose key is
  missing are set aside in their order (\<^verbatim>\<open>na_position="last"\<close> is the default), the others
  are reversed, sorted ascending and reversed again.  The ascending sort is taken stable
  here; pandas' default sort does not promise an order among equal keys, and nothing below
  depends on it.
\<close>

definition sort_values_desc :: "('r \<Rightarrow> rat option) \<Rightarrow> 'r list \<Rightarrow> 'r list" where
  "sort_values_desc col df =
     (let non_nans = List.map_filter (\<lambda>r. case col r of None \<Rightarrow> None | Some v \<Rightarrow> Some (v, r)) df;
          nans = filter (\<lambda>r. col r = None) df
      in map snd (rev (sort_key fst (rev non_nans))) @ nans)"

datatype soft_output = No_Games_Found | Printed "soft_row list"

definition soft_matchups_main ::
  "schedule_response \<Rightarrow> (int \<Rightarrow> people_response) \<Rightarrow> (string \<Rightarrow> rat option) \<Rightarrow> soft_output" where
  \<comment> \<open>\<^verbatim>\<open>main\<close> of soft\_matchups.py; the result is what it prints\<close>
  "soft_matchups_main resp people_of py_float =
     (let rows = map (soft_row_of people_of py_float) (fetch_schedule resp)
      in if rows = [] then No_Games_Found else Printed (sort_values_desc Softness rows))"

section \<open>Home-run events\<close>

record homer_row =
  H_Date :: string
  H_Batter :: "string option"
  Exit_Vel :: "rat option"
  Distance :: "rat option"
  Pitch :: "string option"
  Pitcher :: "string option"

subsection \<open>Most-recent-day feed (hitters.py)\<close>

record daily_rec =
  batter_name :: "string option"
  hit_speed :: "rat option"
  hit_distance :: "rat option"
  pitch_name :: "string option"
  pitcher_name_of :: "string option"

definition fetch_daily :: "string \<Rightarrow> daily_rec list \<Rightarrow> homer_row list \<times> string" where
  \<comment> \<open>\<open>date_str\<close> is yesterday's date as text, \<open>runs\<close> the list the feed returned; the key
      \<^verbatim>\<open>pitcher_name\<close> is the field \<open>pitcher_name_of\<close>\<close>
  "fetch_daily date_str runs =
     (map (\<lambda>rec. \<lparr>H_Date = date_str, H_Batter = batter_name rec, Exit_Vel = hit_speed rec,
                    Distance = hit_distance rec, Pitch = pitch_name rec,
                    Pitcher = pitcher_name_of rec\<rparr>) runs,
      date_str)"

subsection \<open>Day-range mode (fulldata.py)\<close>

record event_type =
  description :: "string option"

record event_details =
  details_type :: "event_type option"

record hit_data =
  launchSpeed :: "rat option"
  totalDistance :: "rat option"

record play_event =
  details :: "event_details option"
  hitData :: "hit_data option"

record feed_person =
  fp_fullName :: "string option"

record play_matchup =
  pm_batter :: feed_person
  pm_pitcher :: feed_person
  pitchType :: "string option"

record play_result =
  eventType :: string

record play =
  result :: play_result
  matchup :: play_matchup
  playEvents :: "play_event list option"

record feed =
  allPlays :: "play list"

definition event_description :: "play_event \<Rightarrow> string option" where
  \<comment> \<open>\<^verbatim>\<open>ev.get("details", {}).get("type", {}).get("description")\<close>\<close>
  "event_description ev =
     (case details ev of
        None \<Rightarrow> None
      | Some d \<Rightarrow> (case details_type d of None \<Rightarrow> None | Some t \<Rightarrow> description t))"

fun find_home_run_event :: "play_event list \<Rightarrow> rat option \<times> rat option" where
  \<comment> \<open>fulldata.py, lines 96 to 104: the loop over the sub-events, left at the first match\<close>
  "find_home_run_event [] = (None, None)"
| "find_home_run_event (ev # evs) =
     (if event_description ev = Some ''home_run''
      then (case hitData ev of
              None \<Rightarrow> (None, None)
            | Some hdata \<Rightarrow> (launchSpeed hdata, totalDistance hdata))
      else find_home_run_event evs)"

definition homer_of :: "string \<Rightarrow> play \<Rightarrow> homer_row" where
  \<comment> \<open>fulldata.py, lines 91 to 113: the row of one play that passed the filter\<close>
  "homer_of dstr pl =
     (let bat = pm_batter (matchup pl);
          pit = pm_pitcher (matchup pl);
          pitch = pitchType (matchup pl);
          (exit_vel, distance) = find_home_run_event (get_list (playEvents pl))
      in \<lparr>H_Date = dstr, H_Batter = fp_fullName bat, Exit_Vel = exit_vel,
          Distance = distance, Pitch = pitch, Pitcher = fp_fullName pit\<rparr>)"

fun plays_rows :: "string \<Rightarrow> play list \<Rightarrow> homer_row list" where
  \<comment> \<open>the loop over \<^verbatim>\<open>allPlays\<close> of one game\<close>
  "plays_rows dstr [] = []"
| "plays_rows dstr (pl # pls) =
     (if eventType (result pl) \<noteq> ''home_run'' then plays_rows dstr pls
      else homer_of dstr pl # plays_rows dstr pls)"

fun games_rows :: "string \<Rightarrow> (int \<Rightarrow> feed) \<Rightarrow> int list \<Rightarrow> homer_row list" where
  \<comment> \<open>the loop over \<^verbatim>\<open>gamePks\<close>, appending to \<^verbatim>\<open>rows\<close>\<close>
  "games_rows dstr feed_of [] = []"
| "games_rows dstr feed_of (pk # pks) =
     plays_rows dstr (allPlays (feed_of pk)) @ games_rows dstr feed_of pks"

definition fetch_daily_homers_for ::
  "string \<Rightarrow> schedule_response \<Rightarrow> (int \<Rightarrow> feed) \<Rightarrow> py_error + homer_row list" where
  \<comment> \<open>\<open>resp\<close> is the schedule of the date \<open>dstr\<close>, \<open>feed_of pk\<close> the live feed of game
      \<open>pk\<close>; \<^verbatim>\<open>sched[0]["games"]\<close> subscripts the key\<close>
  "fetch_daily_homers_for dstr resp feed_of =
     (case get_list (dates resp) of
        [] \<Rightarrow> Inr []
      | d # _ \<Rightarrow>
          (case games d of
             None \<Rightarrow> Inl KeyError
           | Some gs \<Rightarrow> Inr (games_rows dstr feed_of (map gamePk gs))))"

section \<open>Report writer\<close>

datatype frame =
    Homers "homer_row list"
  | Batters "enriched_row list"
  | Pitchers "pitcher_row list"
  | Matchups "matchup_row list"













section \<open>Notions used in the statements\<close>

text \<open>
  The definitions of this section are not code of the scripts: they name what the
  statements below speak about.
\<close>

text \<open>
  The samples of one batter, in the order of the source, and the frame both enrichments
  return for a leaderboard that has rows.
\<close>

definition own_samples :: "sample list \<Rightarrow> int \<Rightarrow> sample list" where
  "own_samples sc pid = filter (\<lambda>s. batter s = pid) sc"

definition join_columns :: "player_row list \<Rightarrow> sample list \<Rightarrow> enriched_row list" where
  "join_columns df sc =
     add_columns df
       (series_map (map Player_ID df)
          (groupby_mean (map batter sc) (map (\<lambda>f. Some (of_int f)) (compute_barrel sc))))
       (series_map (map Player_ID df) (groupby_mean (map batter sc) (map launch_speed sc)))"

text \<open>
  The average exit velocity as the specification words it: the mean launch speed over all
  samples of the player, those with a missing speed counted in the denominator.
\<close>

definition claimed_avg_exit_vel :: "sample list \<Rightarrow> int \<Rightarrow> rat option" where
  "claimed_avg_exit_vel sc pid =
     (let own = own_samples sc pid
      in if own = [] then None
         else Some (sum_list (List.map_filter launch_speed own) / of_nat (length own)))"

text \<open>
  The rows of a frame whose key is present, each with its key, and the same rows in the
  order \<open>sort_values_desc\<close> gives them.
\<close>

definition known_pairs :: "('r \<Rightarrow> rat option) \<Rightarrow> 'r list \<Rightarrow> (rat \<times> 'r) list" where
  "known_pairs col df =
     List.map_filter (\<lambda>r. case col r of None \<Rightarrow> None | Some v \<Rightarrow> Some (v, r)) df"

definition sorted_pairs :: "('r \<Rightarrow> rat option) \<Rightarrow> 'r list \<Rightarrow> (rat \<times> 'r) list" where
  "sorted_pairs col df = rev (sort_key fst (rev (known_pairs col df)))"

text \<open>
  The plays of a feed that pass the filter on the event type.
\<close>

definition home_run_plays :: "feed \<Rightarrow> play list" where
  "home_run_plays fd = filter (\<lambda>pl. eventType (result pl) = ''home_run'') (allPlays fd)"



section \<open>Example inputs\<close>

definition ex_samples :: "sample list" where
  "ex_samples =
     [\<lparr>batter = 1, launch_speed = Some 100, launch_angle = Some 28\<rparr>,
      \<lparr>batter = 1, launch_speed = Some 100, launch_angle = Some 10\<rparr>,
      \<lparr>batter = 2, launch_speed = None, launch_angle = Some 28\<rparr>]"

definition ex_stat :: "int \<Rightarrow> int option \<Rightarrow> stat_dict" where
  "ex_stat hr ab =
     \<lparr>homeRuns = Some hr, gamesPlayed = Some 60, avg = Some ''.300'', slg = Some ''.600'',
      atBats = ab, strikeOuts = None, era = None, inningsPitched = None,
      wins = None, losses = None\<rparr>"

definition ex_split :: "int \<Rightarrow> int \<Rightarrow> int option \<Rightarrow> split" where
  "ex_split pid hr ab = \<lparr>player = \<lparr>player_id = pid, fullName = ''A''\<rparr>, stat = ex_stat hr ab\<rparr>"


definition ex_board :: "player_row list" where
  "ex_board = [top75_row (ex_split 1 50 (Some 200)), top75_row (ex_split 9 0 (Some 0))]"

definition ex_board_response :: stats_response where
  "ex_board_response =
     \<lparr>stats = Some [\<lparr>splits = Some [ex_split 1 50 (Some 200), ex_split 9 0 (Some 0)]\<rparr>]\<rparr>"

definition ex_no_splits :: stats_response where
  "ex_no_splits = \<lparr>stats = Some [\<lparr>splits = Some []\<rparr>]\<rparr>"

definition ex_samples_missing :: "sample list" where
  "ex_samples_missing =
     [\<lparr>batter = 1, launch_speed = Some 100, launch_angle = Some 28\<rparr>,
      \<lparr>batter = 1, launch_speed = None, launch_angle = None\<rparr>]"

definition ex_side :: "string \<Rightarrow> int option \<Rightarrow> team_side" where
  "ex_side nm pid =
     \<lparr>team_name = nm,
      probablePitcher =
        (case pid of None \<Rightarrow> None | Some i \<Rightarrow> Some \<lparr>pp_id = Some i, pp_fullName = Some ''P''\<rparr>)\<rparr>"

definition ex_games :: "game list" where
  "ex_games =
     [\<lparr>gamePk = 1, home = ex_side ''H1'' None, away = ex_side ''A1'' None\<rparr>,
      \<lparr>gamePk = 2, home = ex_side ''H2'' (Some 10), away = ex_side ''A2'' (Some 20)\<rparr>,
      \<lparr>gamePk = 3, home = ex_side ''H3'' None, away = ex_side ''A3'' (Some 10)\<rparr>]"

definition ex_schedule :: schedule_response where
  "ex_schedule = \<lparr>dates = Some [\<lparr>games = Some ex_games\<rparr>]\<rparr>"

definition ex_people_of :: "int \<Rightarrow> people_response" where
  "ex_people_of i =
     \<lparr>people = Some [\<lparr>p_stats = Some [\<lparr>ps_splits = Some [\<lparr>ps_stat =
        Some ((ex_stat 0 None) \<lparr>era := Some (if i = 10 then ''3.50'' else ''4.80'')\<rparr>)\<rparr>]\<rparr>]\<rparr>]\<rparr>"

definition ex_py_float :: "string \<Rightarrow> rat option" where
  "ex_py_float s =
     (if s = ''3.50'' then Some (7 / 2) else if s = ''4.80'' then Some (24 / 5) else None)"

definition ex_pitchers :: stats_response where
  "ex_pitchers =
     \<lparr>stats = Some [\<lparr>splits = Some
        [\<lparr>player = \<lparr>player_id = 10, fullName = ''P''\<rparr>,
          stat = \<lparr>homeRuns = None, gamesPlayed = Some 12, avg = None, slg = None, atBats = None,
                  strikeOuts = Some 90, era = Some ''3.50'', inningsPitched = Some ''70.1'',
                  wins = Some 6, losses = Some 3\<rparr>\<rparr>]\<rparr>]\<rparr>"

definition ex_no_dates :: schedule_response where
  "ex_no_dates = \<lparr>dates = Some []\<rparr>"

definition ex_pitcher_row :: pitcher_row where
  "ex_pitcher_row =
     \<lparr>P_Pitcher = ''P'', P_Player_ID = 10, P_SO = 90, P_ERA = ''3.50'', P_Games = 12,
      P_IP = ''70.1'', P_Wins = 6, P_Losses = 3\<rparr>"

definition ex_stats_map :: "int \<Rightarrow> pitcher_row option" where
  "ex_stats_map = map_of [(10, ex_pitcher_row)]"

definition ex_event :: "string \<Rightarrow> hit_data option \<Rightarrow> play_event" where
  "ex_event desc h =
     \<lparr>details = Some \<lparr>details_type = Some \<lparr>description = Some desc\<rparr>\<rparr>, hitData = h\<rparr>"

definition ex_play :: "string \<Rightarrow> play_event list \<Rightarrow> play" where
  "ex_play et evs =
     \<lparr>result = \<lparr>eventType = et\<rparr>,
      matchup = \<lparr>pm_batter = \<lparr>fp_fullName = Some ''B''\<rparr>,
                 pm_pitcher = \<lparr>fp_fullName = Some ''P''\<rparr>, pitchType = None\<rparr>,
      playEvents = Some evs\<rparr>"

definition ex_feed_of :: "int \<Rightarrow> feed" where
  "ex_feed_of pk =
     (if pk = 1
      then \<lparr>allPlays =
              [ex_play ''single'' [],
               ex_play ''home_run''
                 [ex_event ''ball'' None,
                  ex_event ''home_run'' (Some \<lparr>launchSpeed = Some 105, totalDistance = Some 420\<rparr>),
                  ex_event ''home_run'' (Some \<lparr>launchSpeed = Some 99, totalDistance = Some 380\<rparr>)]]\<rparr>
      else \<lparr>allPlays = [ex_play ''home_run'' [ex_event ''ball'' None]]\<rparr>)"



section \<open>Home-run percentage\<close>













section \<open>Barrel classification\<close>

lemma length_compute_barrel: "length (compute_barrel sc) = length sc"
  by (simp add: compute_barrel_def Let_def astype_int_def series_or_def series_and_def
      series_ge_def between_def fillna_def)

lemma compute_barrel_nth:
  assumes "i < length sc"
  shows "compute_barrel sc ! i =
     (let speed = (case launch_speed (sc ! i) of None \<Rightarrow> 0 | Some v \<Rightarrow> v);
          angle = (case launch_angle (sc ! i) of None \<Rightarrow> 0 | Some v \<Rightarrow> v)
      in if (98 \<le> speed \<and> 26 \<le> angle \<and> angle \<le> 30) \<or>
            (105 \<le> speed \<and> 19 \<le> angle \<and> angle \<le> 26) \<or>
            (109 \<le> speed \<and> 13 \<le> angle \<and> angle \<le> 19) then 1 else 0)"
  using assms
  by (simp add: compute_barrel_def Let_def astype_int_def series_or_def series_and_def
      series_ge_def between_def fillna_def)

lemma top75_barrel_flag_eq: "top75_barrel_flag sc = compute_barrel sc"
  by (simp add: top75_barrel_flag_def compute_barrel_def)

text \<open>
  Claim C2.  \<^verbatim>\<open>compute_barrel\<close> gives every sample one flag, 0 or 1, and the inline copy
  in fulldata.py gives the same flags.  With a missing speed or angle read as 0, the flag is
  1 exactly when the speed is at least 98 and the angle in [26, 30], or the speed at least 105
  and the angle in [19, 26], or the speed at least 109 and the angle in [13, 19].  A sample
  with a missing speed or angle is never a barrel.  (100, 28) is a barrel, (100, 10) is not,
  and a sample with both missing is not.
\<close>

theorem barrel_bands:
  "length (compute_barrel sc) = length sc \<and>
   top75_barrel_flag sc = compute_barrel sc \<and>
   (\<forall>i<length sc.
      (compute_barrel sc ! i = 0 \<or> compute_barrel sc ! i = 1) \<and>
      (compute_barrel sc ! i = 1 \<longleftrightarrow>
        (let speed = (case launch_speed (sc ! i) of None \<Rightarrow> 0 | Some v \<Rightarrow> v);
             angle = (case launch_angle (sc ! i) of None \<Rightarrow> 0 | Some v \<Rightarrow> v)
         in (98 \<le> speed \<and> 26 \<le> angle \<and> angle \<le> 30) \<or>
            (105 \<le> speed \<and> 19 \<le> angle \<and> angle \<le> 26) \<or>
            (109 \<le> speed \<and> 13 \<le> angle \<and> angle \<le> 19))) \<and>
      (launch_speed (sc ! i) = None \<or> launch_angle (sc ! i) = None \<longrightarrow>
         compute_barrel sc ! i = 0)) \<and>
   compute_barrel [\<lparr>batter = b, launch_speed = Some 100, launch_angle = Some 28\<rparr>] = [1] \<and>
   compute_barrel [\<lparr>batter = b, launch_speed = Some 100, launch_angle = Some 10\<rparr>] = [0] \<and>
   compute_barrel [\<lparr>batter = b, launch_speed = None, launch_angle = None\<rparr>] = [0]"
proof -
  have ex: "compute_barrel [\<lparr>batter = b, launch_speed = Some 100, launch_angle = Some 28\<rparr>] = [1]"
    "compute_barrel [\<lparr>batter = b, launch_speed = Some 100, launch_angle = Some 10\<rparr>] = [0]"
    "compute_barrel [\<lparr>batter = b, launch_speed = None, launch_angle = None\<rparr>] = [0]"
    by (simp_all add: compute_barrel_def Let_def astype_int_def series_or_def series_and_def
      series_ge_def between_def fillna_def)
  have rows: "(compute_barrel sc ! i = 0 \<or> compute_barrel sc ! i = 1) \<and>
      (compute_barrel sc ! i = 1 \<longleftrightarrow>
        (let speed = (case launch_speed (sc ! i) of None \<Rightarrow> 0 | Some v \<Rightarrow> v);
             angle = (case launch_angle (sc ! i) of None \<Rightarrow> 0 | Some v \<Rightarrow> v)
         in (98 \<le> speed \<and> 26 \<le> angle \<and> angle \<le> 30) \<or>
            (105 \<le> speed \<and> 19 \<le> angle \<and> angle \<le> 26) \<or>
            (109 \<le> speed \<and> 13 \<le> angle \<and> angle \<le> 19))) \<and>
      (launch_speed (sc ! i) = None \<or> launch_angle (sc ! i) = None \<longrightarrow>
         compute_barrel sc ! i = 0)" if "i < length sc" for i
    using compute_barrel_nth [OF that] by (auto simp: Let_def split: option.splits)
  show ?thesis
    using ex rows length_compute_barrel top75_barrel_flag_eq by blast
qed

theorem barrel_bands_witness:
  "compute_barrel ex_samples ! 0 = 1 \<and> compute_barrel ex_samples ! 2 = 0 \<and>
   length (compute_barrel ex_samples) = 3"
proof -
  note rows = barrel_bands [of ex_samples 0, THEN conjunct2, THEN conjunct2, THEN conjunct1,
      rule_format]
  have "compute_barrel ex_samples ! 0 = 1"
    using rows [of 0] by (simp add: ex_samples_def)
  moreover have "compute_barrel ex_samples ! 2 = 0"
    using rows [of 2] by (simp add: ex_samples_def)
  moreover have "length (compute_barrel ex_samples) = 3"
    using barrel_bands [of ex_samples 0] by (simp add: ex_samples_def)
  ultimately show ?thesis by simp
qed

section \<open>Enrichment join\<close>

lemma group_of_map:
  "group_of (map batter sc) (map f sc) k = map f (filter (\<lambda>s. batter s = k) sc)"
  by (induction sc) (auto simp: group_of_def)

lemma compute_barrel_Nil: "compute_barrel [] = []"
  by (simp add: compute_barrel_def Let_def astype_int_def series_or_def series_and_def
      series_ge_def between_def fillna_def)

lemma compute_barrel_Cons: "compute_barrel (s # sc) = compute_barrel [s] @ compute_barrel sc"
  by (simp add: compute_barrel_def Let_def astype_int_def series_or_def series_and_def
      series_ge_def between_def fillna_def)

lemma group_of_barrel:
  "group_of (map batter sc) (map g (compute_barrel sc)) k =
     map g (compute_barrel (filter (\<lambda>s. batter s = k) sc))"
proof (induction sc)
  case Nil
  show ?case by (simp add: group_of_def compute_barrel_Nil)
next
  case (Cons s sc)
  have one: "\<exists>f. compute_barrel [s] = [f]"
    by (simp add: compute_barrel_def Let_def astype_int_def series_or_def series_and_def
      series_ge_def between_def fillna_def)
  then obtain f where f: "compute_barrel [s] = [f]" by blast
  have step: "compute_barrel (s # xs) = f # compute_barrel xs" for xs
    using compute_barrel_Cons [of s xs] f by simp
  from Cons.IH show ?case
    by (auto simp: step group_of_def)
qed

lemma map_filter_map: "List.map_filter (\<lambda>v. v) (map f xs) = List.map_filter f xs"
  by (simp add: List.map_filter_def filter_map comp_def)

lemma mean_skipna_flags:
  "mean_skipna (map (\<lambda>f. Some (of_int f)) fl) =
     (if fl = [] then None else Some (of_int (sum_list fl) / of_nat (length fl)))"
proof -
  have "List.map_filter (\<lambda>v. v) (map (\<lambda>f. Some (rat_of_int f)) fl) = map rat_of_int fl"
    by (induction fl) (simp_all add: List.map_filter_def)
  moreover have "sum_list (map rat_of_int fl) = of_int (sum_list fl)"
    by (induction fl) simp_all
  ultimately show ?thesis
    by (simp add: mean_skipna_def)
qed

lemma barrel_map_eq:
  "groupby_mean (map batter sc) (map (\<lambda>f. Some (of_int f)) (compute_barrel sc)) k =
     (if own_samples sc k = [] then None
      else Some (Some (of_int (sum_list (compute_barrel (own_samples sc k))) /
                       of_nat (length (own_samples sc k)))))"
proof -
  have len: "length (compute_barrel xs) = length xs" for xs
    by (simp add: compute_barrel_def Let_def astype_int_def series_or_def series_and_def
      series_ge_def between_def fillna_def)
  have e: "compute_barrel xs = [] \<longleftrightarrow> xs = []" for xs
    using len [of xs] by (metis length_0_conv)
  show ?thesis
    by (simp add: groupby_mean_def Let_def group_of_barrel mean_skipna_flags own_samples_def e len)
qed

lemma ev_map_eq:
  "groupby_mean (map batter sc) (map launch_speed sc) k =
     (if own_samples sc k = [] then None
      else Some (let speeds = List.map_filter launch_speed (own_samples sc k)
                 in if speeds = [] then None
                    else Some (sum_list speeds / of_nat (length speeds))))"
  by (simp add: groupby_mean_def Let_def group_of_map mean_skipna_def own_samples_def
      map_filter_map)

lemma length_add_columns:
  "length bs = length df \<Longrightarrow> length es = length df \<Longrightarrow> length (add_columns df bs es) = length df"
  by (simp add: add_columns_def)

lemma truncate_add_columns:
  "length bs = length df \<Longrightarrow> length es = length df \<Longrightarrow>
     map player_row.truncate (add_columns df bs es) = df"
  by (auto simp: add_columns_def list_eq_iff_nth_eq player_row.defs enriched_row.defs)

lemma nth_add_columns:
  "length bs = length df \<Longrightarrow> length es = length df \<Longrightarrow> i < length df \<Longrightarrow>
     Barrel_pct (add_columns df bs es ! i) = bs ! i \<and>
     Avg_Exit_Vel (add_columns df bs es ! i) = es ! i"
  by (simp add: add_columns_def player_row.defs enriched_row.defs)

lemma enrich_top50_eq:
  "enrich_top50 df sc = (if df = [] then Inl KeyError else Inr (join_columns df sc))"
  by (simp add: enrich_top50_def join_columns_def Let_def)

lemma fetch_top75_and_enrich_eq:
  "top75_base resp = Inr df \<Longrightarrow>
     fetch_top75_and_enrich resp sc = (if df = [] then Inl KeyError else Inr (join_columns df sc))"
  by (simp add: fetch_top75_and_enrich_def join_columns_def Let_def top75_barrel_flag_eq)

lemma join_columns_shape:
  "length (join_columns df sc) = length df \<and> map player_row.truncate (join_columns df sc) = df"
  by (simp add: join_columns_def length_add_columns truncate_add_columns series_map_def)

lemma join_columns_nth:
  assumes "i < length df"
  shows "Barrel_pct (join_columns df sc ! i) =
      (if own_samples sc (Player_ID (df ! i)) = [] then None
       else Some (of_int (sum_list (compute_barrel (own_samples sc (Player_ID (df ! i))))) /
                       of_nat (length (own_samples sc (Player_ID (df ! i))))))"
    and "Avg_Exit_Vel (join_columns df sc ! i) =
      (if own_samples sc (Player_ID (df ! i)) = [] then None
       else (let speeds = List.map_filter launch_speed (own_samples sc (Player_ID (df ! i)))
                 in if speeds = [] then None
                    else Some (sum_list speeds / of_nat (length speeds))))"
  using assms
  by (simp_all add: join_columns_def nth_add_columns series_map_def barrel_map_eq ev_map_eq)

lemma own_samples_empty: "own_samples sc k = [] \<longleftrightarrow> k \<notin> batter ` set sc"
  by (auto simp: own_samples_def filter_empty_conv)

lemma ex_board_base: "top75_base ex_board_response = Inr ex_board"
  by (simp add: top75_base_def first_splits_def get_list_def ex_board_response_def ex_board_def)

lemma ex_board_ids: "map Player_ID ex_board = [1, 9]" "length ex_board = 2" "ex_board \<noteq> []"
  by (simp_all add: ex_board_def top75_row_def Let_def ex_split_def ex_stat_def)

text \<open>
  Claim C3, as amended.  For every leaderboard with at least one row, both enrichments
  return a frame with exactly as many rows, every original field of every row is unchanged
  (the row cut back to the leaderboard's columns is the input row), the only new columns are
  the barrel rate and the average exit velocity, and either is present only for a player who
  has a sample.
\<close>

theorem enrichment_additive:
  "(df \<noteq> [] \<longrightarrow>
      (\<exists>out. enrich_top50 df sc = Inr out \<and> length out = length df \<and>
         map player_row.truncate out = df \<and>
         (\<forall>i<length df. Barrel_pct (out ! i) \<noteq> None \<or> Avg_Exit_Vel (out ! i) \<noteq> None \<longrightarrow>
            Player_ID (df ! i) \<in> batter ` set sc))) \<and>
   (top75_base resp = Inr df \<and> df \<noteq> [] \<longrightarrow>
      (\<exists>out. fetch_top75_and_enrich resp sc = Inr out \<and> length out = length df \<and>
         map player_row.truncate out = df \<and>
         (\<forall>i<length df. Barrel_pct (out ! i) \<noteq> None \<or> Avg_Exit_Vel (out ! i) \<noteq> None \<longrightarrow>
            Player_ID (df ! i) \<in> batter ` set sc)))"
proof -
  have only: "Player_ID (df ! i) \<in> batter ` set sc"
    if "i < length df"
      "Barrel_pct (join_columns df sc ! i) \<noteq> None \<or> Avg_Exit_Vel (join_columns df sc ! i) \<noteq> None"
    for i
    using that join_columns_nth [of i df sc] own_samples_empty [of sc "Player_ID (df ! i)"]
    by (auto split: if_splits)
  show ?thesis
    using only join_columns_shape [of df sc]
    by (auto simp: enrich_top50_eq fetch_top75_and_enrich_eq)
qed

theorem enrichment_additive_witness:
  "map_sum id length (enrich_top50 ex_board ex_samples) = Inr 2 \<and>
   map_sum id (map player_row.truncate) (enrich_top50 ex_board ex_samples) = Inr ex_board \<and>
   map_sum id length (fetch_top75_and_enrich ex_board_response ex_samples) = Inr 2 \<and>
   map_sum id (map player_row.truncate) (fetch_top75_and_enrich ex_board_response ex_samples) =
     Inr ex_board"
  using enrichment_additive [of ex_board ex_samples ex_board_response] ex_board_base ex_board_ids
  by auto

text \<open>
  The claim as the specification states it fails for the leaderboard with no row: the frame
  built from no dictionary has no \<^verbatim>\<open>Player_ID\<close> column, and both enrichments raise
  \<^verbatim>\<open>KeyError\<close> instead of returning a frame with no row.
\<close>

theorem enrichment_empty_leaderboard:
  "enrich_top50 [] ex_samples = Inl KeyError \<and>
   top75_base ex_no_splits = Inr [] \<and>
   fetch_top75_and_enrich ex_no_splits ex_samples = Inl KeyError"
  by (simp add: enrich_top50_def fetch_top75_and_enrich_def top75_base_def first_splits_def
      get_list_def ex_no_splits_def Let_def)

text \<open>
  Claim C6.  For every row of the leaderboard whose player has no sample, both enrichments
  return a frame in which the barrel rate and the average exit velocity of that row are
  absent.
\<close>

theorem enrichment_absent_player:
  "(i < length df \<and> Player_ID (df ! i) \<notin> batter ` set sc \<longrightarrow>
      (\<exists>out. enrich_top50 df sc = Inr out \<and>
         Barrel_pct (out ! i) = None \<and> Avg_Exit_Vel (out ! i) = None)) \<and>
   (top75_base resp = Inr df \<and> i < length df \<and> Player_ID (df ! i) \<notin> batter ` set sc \<longrightarrow>
      (\<exists>out. fetch_top75_and_enrich resp sc = Inr out \<and>
         Barrel_pct (out ! i) = None \<and> Avg_Exit_Vel (out ! i) = None))"
proof -
  have none: "Barrel_pct (join_columns df sc ! i) = None \<and>
      Avg_Exit_Vel (join_columns df sc ! i) = None"
    if "i < length df" "Player_ID (df ! i) \<notin> batter ` set sc"
    using that join_columns_nth [of i df sc] own_samples_empty [of sc "Player_ID (df ! i)"]
    by simp
  have ne: "df \<noteq> []" if "i < length df"
    using that by auto
  show ?thesis
    using none ne by (auto simp: enrich_top50_eq fetch_top75_and_enrich_eq)
qed

theorem enrichment_absent_player_witness:
  "map_sum id (\<lambda>out. (Barrel_pct (out ! 1), Avg_Exit_Vel (out ! 1)))
     (enrich_top50 ex_board ex_samples) = Inr (None, None) \<and>
   map_sum id (\<lambda>out. (Barrel_pct (out ! 1), Avg_Exit_Vel (out ! 1)))
     (fetch_top75_and_enrich ex_board_response ex_samples) = Inr (None, None)"
proof -
  have i: "1 < length ex_board" "Player_ID (ex_board ! 1) \<notin> batter ` set ex_samples"
    by (simp_all add: ex_board_def top75_row_def Let_def ex_split_def ex_stat_def ex_samples_def)
  show ?thesis
    using enrichment_absent_player [of 1 ex_board ex_samples ex_board_response] i ex_board_base
    by auto
qed

text \<open>
  Claim C4, as amended.  For every row of the leaderboard, the barrel rate is the mean of
  the barrel flag over all samples of the player (the sum of the flags divided by the number
  of the samples), and the average exit velocity is the mean of the launch speed over those
  samples of the player whose launch speed is present; it is absent when there is none.
\<close>

theorem enrichment_aggregates:
  "(i < length df \<longrightarrow>
      (\<exists>out. enrich_top50 df sc = Inr out \<and>
         Barrel_pct (out ! i) =
           (let own = own_samples sc (Player_ID (df ! i))
            in if own = [] then None
               else Some (of_int (sum_list (compute_barrel own)) / of_nat (length own))) \<and>
         Avg_Exit_Vel (out ! i) =
           (let speeds = List.map_filter launch_speed (own_samples sc (Player_ID (df ! i)))
            in if speeds = [] then None else Some (sum_list speeds / of_nat (length speeds))))) \<and>
   (top75_base resp = Inr df \<and> i < length df \<longrightarrow>
      (\<exists>out. fetch_top75_and_enrich resp sc = Inr out \<and>
         Barrel_pct (out ! i) =
           (let own = own_samples sc (Player_ID (df ! i))
            in if own = [] then None
               else Some (of_int (sum_list (compute_barrel own)) / of_nat (length own))) \<and>
         Avg_Exit_Vel (out ! i) =
           (let speeds = List.map_filter launch_speed (own_samples sc (Player_ID (df ! i)))
            in if speeds = [] then None else Some (sum_list speeds / of_nat (length speeds)))))"
proof -
  have mf: "List.map_filter launch_speed [] = []"
    by (simp add: List.map_filter_def)
  have cols: "Barrel_pct (join_columns df sc ! i) =
           (let own = own_samples sc (Player_ID (df ! i))
            in if own = [] then None
               else Some (of_int (sum_list (compute_barrel own)) / of_nat (length own))) \<and>
         Avg_Exit_Vel (join_columns df sc ! i) =
           (let speeds = List.map_filter launch_speed (own_samples sc (Player_ID (df ! i)))
            in if speeds = [] then None else Some (sum_list speeds / of_nat (length speeds)))"
    if "i < length df"
    using join_columns_nth [OF that, of sc] by (simp add: Let_def mf)
  have ne: "df \<noteq> []" if "i < length df"
    using that by auto
  show ?thesis
    using cols ne by (auto simp: enrich_top50_eq fetch_top75_and_enrich_eq)
qed

theorem enrichment_aggregates_witness:
  "map_sum id (\<lambda>out. (Barrel_pct (out ! 0), Avg_Exit_Vel (out ! 0)))
     (enrich_top50 ex_board ex_samples_missing) = Inr (Some (1 / 2), Some 100) \<and>
   map_sum id (\<lambda>out. (Barrel_pct (out ! 0), Avg_Exit_Vel (out ! 0)))
     (fetch_top75_and_enrich ex_board_response ex_samples_missing) = Inr (Some (1 / 2), Some 100)"
proof -
  have i: "0 < length ex_board" "Player_ID (ex_board ! 0) = 1"
    by (simp_all add: ex_board_def top75_row_def Let_def ex_split_def ex_stat_def)
  have own: "own_samples ex_samples_missing 1 = ex_samples_missing"
    by (simp add: own_samples_def ex_samples_missing_def)
  have b: "compute_barrel ex_samples_missing = [1, 0]"
    by (simp add: compute_barrel_def Let_def astype_int_def series_or_def series_and_def
      series_ge_def between_def fillna_def ex_samples_missing_def)
  have s: "List.map_filter launch_speed ex_samples_missing = [100]"
    by (simp add: List.map_filter_def ex_samples_missing_def)
  have l: "length ex_samples_missing = 2" "ex_samples_missing \<noteq> []"
    by (simp_all add: ex_samples_missing_def)
  show ?thesis
    using enrichment_aggregates [of 0 ex_board ex_samples_missing ex_board_response]
      i own b s l ex_board_base
    by (auto simp: Let_def)
qed

text \<open>
  The claim as the specification states it fails: a sample with a missing launch speed is
  counted in the barrel rate and left out of the average exit velocity, so the two means do
  not have the same denominator.
\<close>

theorem avg_exit_vel_skips_missing:
  "map_sum id (\<lambda>out. Avg_Exit_Vel (out ! 0)) (enrich_top50 ex_board ex_samples_missing) =
     Inr (Some 100) \<and>
   map_sum id (\<lambda>out. Avg_Exit_Vel (out ! 0))
     (fetch_top75_and_enrich ex_board_response ex_samples_missing) = Inr (Some 100) \<and>
   claimed_avg_exit_vel ex_samples_missing 1 = Some 50 \<and>
   map_sum id (\<lambda>out. Avg_Exit_Vel (out ! 0)) (enrich_top50 ex_board ex_samples_missing) \<noteq>
     Inr (claimed_avg_exit_vel ex_samples_missing 1)"
proof -
  have own: "own_samples ex_samples_missing 1 = ex_samples_missing"
    by (simp add: own_samples_def ex_samples_missing_def)
  have s: "List.map_filter launch_speed ex_samples_missing = [100]"
    by (simp add: List.map_filter_def ex_samples_missing_def)
  have l: "length ex_samples_missing = 2" "ex_samples_missing \<noteq> []"
    by (simp_all add: ex_samples_missing_def)
  have i: "0 < length ex_board" "Player_ID (ex_board ! 0) = 1" "ex_board \<noteq> []"
    by (simp_all add: ex_board_def top75_row_def Let_def ex_split_def ex_stat_def)
  have "Avg_Exit_Vel (join_columns ex_board ex_samples_missing ! 0) = Some 100"
    using join_columns_nth(2) [OF i(1), of ex_samples_missing] i own s l by (simp add: Let_def)
  moreover have "claimed_avg_exit_vel ex_samples_missing 1 = Some 50"
    by (simp add: claimed_avg_exit_vel_def own s l Let_def)
  ultimately show ?thesis
    using i ex_board_base by (simp add: enrich_top50_eq fetch_top75_and_enrich_eq)
qed

section \<open>Softness and its ranking\<close>

lemma softness_of_cases:
  "softness_of (Some a) (Some b) = Some (max a b)"
  "softness_of None (Some b) = Some b"
  "softness_of (Some a) None = Some a"
  "softness_of None None = None"
  by (simp_all add: softness_of_def List.map_filter_def max.commute)

lemma known_pairs_col: "(v, r) \<in> set (known_pairs col df) \<Longrightarrow> col r = Some v"
  by (auto simp: known_pairs_def List.map_filter_def split: option.splits)

lemma map_snd_known_pairs: "map snd (known_pairs col df) = filter (\<lambda>r. col r \<noteq> None) df"
  by (induction df) (auto simp: known_pairs_def List.map_filter_def split: option.splits)

lemma sort_values_desc_eq:
  "sort_values_desc col df = map snd (sorted_pairs col df) @ filter (\<lambda>r. col r = None) df"
  by (simp add: sort_values_desc_def sorted_pairs_def known_pairs_def Let_def)

lemma set_sorted_pairs: "set (sorted_pairs col df) = set (known_pairs col df)"
  by (simp add: sorted_pairs_def)

lemma sorted_pairs_col:
  "i < length (sorted_pairs col df) \<Longrightarrow>
     col (snd (sorted_pairs col df ! i)) = Some (fst (sorted_pairs col df ! i))"
  using known_pairs_col [of "fst (sorted_pairs col df ! i)" "snd (sorted_pairs col df ! i)" col df]
    set_sorted_pairs [of col df] nth_mem [of i "sorted_pairs col df"]
  by simp

lemma sorted_pairs_desc: "sorted (rev (map fst (sorted_pairs col df)))"
  by (simp add: sorted_pairs_def rev_map [symmetric])

lemma sorted_pairs_desc_nth:
  assumes "i < j" "j < length (sorted_pairs col df)"
  shows "fst (sorted_pairs col df ! j) \<le> fst (sorted_pairs col df ! i)"
proof -
  let ?xs = "map fst (sorted_pairs col df)"
  let ?n = "length ?xs"
  have s: "sorted (rev ?xs)" by (rule sorted_pairs_desc)
  have "rev ?xs ! (?n - 1 - j) \<le> rev ?xs ! (?n - 1 - i)"
    using assms by (intro sorted_nth_mono [OF s]) auto
  then show ?thesis
    using assms by (simp add: rev_nth)
qed

lemma mset_sort_values_desc: "mset (sort_values_desc col df) = mset df"
proof -
  have "mset (map snd (sorted_pairs col df)) = mset (map snd (known_pairs col df))"
    by (simp add: sorted_pairs_def)
  then have "mset (sort_values_desc col df) =
      mset (filter (\<lambda>r. col r \<noteq> None) df) + mset (filter (\<lambda>r. col r = None) df)"
    by (simp add: sort_values_desc_eq map_snd_known_pairs)
  then show ?thesis
    by (simp add: union_commute)
qed

lemma sort_values_desc_nth:
  assumes "i < length (sort_values_desc col df)"
  shows "col (sort_values_desc col df ! i) \<noteq> None \<longleftrightarrow> i < length (sorted_pairs col df)"
proof (cases "i < length (sorted_pairs col df)")
  case True
  then show ?thesis
    using sorted_pairs_col [of i col df] by (simp add: sort_values_desc_eq nth_append)
next
  case False
  let ?nans = "filter (\<lambda>r. col r = None) df"
  have "i - length (sorted_pairs col df) < length ?nans"
    using assms False by (simp add: sort_values_desc_eq)
  then have "?nans ! (i - length (sorted_pairs col df)) \<in> set ?nans"
    by (rule nth_mem)
  then have "col (?nans ! (i - length (sorted_pairs col df))) = None"
    by simp
  with False show ?thesis
    by (simp add: sort_values_desc_eq nth_append)
qed

lemma sort_values_desc_nans_last:
  assumes "i < length (sort_values_desc col df)" "j < length (sort_values_desc col df)"
    "col (sort_values_desc col df ! i) = None" "col (sort_values_desc col df ! j) \<noteq> None"
  shows "j < i"
  using assms sort_values_desc_nth [of i col df] sort_values_desc_nth [of j col df]
  by simp

lemma sort_values_desc_descending:
  assumes "i < j" "j < length (sort_values_desc col df)"
    "col (sort_values_desc col df ! i) = Some a" "col (sort_values_desc col df ! j) = Some b"
  shows "b \<le> a"
proof -
  have j: "j < length (sorted_pairs col df)"
    using assms sort_values_desc_nth [of j col df] by simp
  with assms have i: "i < length (sorted_pairs col df)" by simp
  have "col (sort_values_desc col df ! i) = Some (fst (sorted_pairs col df ! i))"
    using i sorted_pairs_col [of i col df] by (simp add: sort_values_desc_eq nth_append)
  moreover have "col (sort_values_desc col df ! j) = Some (fst (sorted_pairs col df ! j))"
    using j sorted_pairs_col [of j col df] by (simp add: sort_values_desc_eq nth_append)
  ultimately show ?thesis
    using assms sorted_pairs_desc_nth [OF assms(1) j] by simp
qed

lemma ex_eras:
  "fetch_pitcher_era ex_people_of ex_py_float None = None"
  "fetch_pitcher_era ex_people_of ex_py_float (Some 10) = Some (7 / 2)"
  "fetch_pitcher_era ex_people_of ex_py_float (Some 20) = Some (24 / 5)"
  by (simp_all add: fetch_pitcher_era_def ex_people_of_def ex_py_float_def get_list_def
      ex_stat_def)

lemma ex_soft_rows:
  "map Softness (map (soft_row_of ex_people_of ex_py_float) ex_games) =
     [None, Some (24 / 5), Some (7 / 2)]"
  by (simp add: ex_games_def soft_row_of_def Let_def ex_side_def pitcher_id_def ex_eras
      softness_of_cases)

text \<open>
  Claim C5.  The softness of a matchup row is the maximum of the two starters' ERAs when
  both are known, the known one when one is known, and absent when none is; 3.50 against
  4.80 gives 4.80, and an unknown ERA against 4.80 gives 4.80.  The ranker prints the rows
  sorted by \<^verbatim>\<open>sort_values\<close>, which permutes them, puts every row without a softness after
  every row with one, and orders the rows with a softness from the highest down.
\<close>

theorem softness_max_and_order:
  "softness_of (Some a) (Some b) = Some (max a b) \<and>
   softness_of None (Some b) = Some b \<and>
   softness_of (Some a) None = Some a \<and>
   softness_of None None = None \<and>
   softness_of (Some (7 / 2)) (Some (24 / 5)) = Some (24 / 5) \<and>
   softness_of None (Some (24 / 5)) = Some (24 / 5) \<and>
   Softness (soft_row_of people_of py_float g) =
     softness_of (S_Home_ERA (soft_row_of people_of py_float g))
       (S_Away_ERA (soft_row_of people_of py_float g)) \<and>
   soft_matchups_main resp people_of py_float =
     (if fetch_schedule resp = [] then No_Games_Found
      else Printed (sort_values_desc Softness
             (map (soft_row_of people_of py_float) (fetch_schedule resp)))) \<and>
   mset (sort_values_desc Softness rows) = mset rows \<and>
   (\<forall>i j. i < length rows \<and> j < length rows \<and>
      Softness (sort_values_desc Softness rows ! i) = None \<and>
      Softness (sort_values_desc Softness rows ! j) \<noteq> None \<longrightarrow> j < i) \<and>
   (\<forall>i j a b. i < j \<and> j < length rows \<and>
      Softness (sort_values_desc Softness rows ! i) = Some a \<and>
      Softness (sort_values_desc Softness rows ! j) = Some b \<longrightarrow> b \<le> a)"
proof -
  have len: "length (sort_values_desc Softness rows) = length rows"
    using mset_sort_values_desc [of Softness rows] by (metis size_mset)
  have ex: "softness_of (Some (7 / 2)) (Some (24 / 5)) = Some (24 / 5)"
    by (simp add: softness_of_cases)
  have row: "Softness (soft_row_of people_of py_float g) =
     softness_of (S_Home_ERA (soft_row_of people_of py_float g))
       (S_Away_ERA (soft_row_of people_of py_float g))"
    by (simp add: soft_row_of_def Let_def)
  have main: "soft_matchups_main resp people_of py_float =
     (if fetch_schedule resp = [] then No_Games_Found
      else Printed (sort_values_desc Softness
             (map (soft_row_of people_of py_float) (fetch_schedule resp))))"
    by (simp add: soft_matchups_main_def Let_def)
  have last: "\<forall>i j. i < length rows \<and> j < length rows \<and>
      Softness (sort_values_desc Softness rows ! i) = None \<and>
      Softness (sort_values_desc Softness rows ! j) \<noteq> None \<longrightarrow> j < i"
    using sort_values_desc_nans_last [of _ Softness rows] len by auto
  have desc: "\<forall>i j a b. i < j \<and> j < length rows \<and>
      Softness (sort_values_desc Softness rows ! i) = Some a \<and>
      Softness (sort_values_desc Softness rows ! j) = Some b \<longrightarrow> b \<le> a"
    using sort_values_desc_descending [of _ _ Softness rows] len by auto
  show ?thesis
    using softness_of_cases(1) [of a b] softness_of_cases(2) [of b] softness_of_cases(3) [of a]
      softness_of_cases(4) softness_of_cases(2) [of "24 / 5"] ex row main
      mset_sort_values_desc [of Softness rows] last desc
    by (intro conjI)
qed

theorem softness_max_and_order_witness:
  "map Softness (map (soft_row_of ex_people_of ex_py_float) ex_games) =
     [None, Some (24 / 5), Some (7 / 2)] \<and>
   map Softness
     (sort_values_desc Softness (map (soft_row_of ex_people_of ex_py_float) ex_games)) =
     [Some (24 / 5), Some (7 / 2), None] \<and>
   mset (sort_values_desc Softness (map (soft_row_of ex_people_of ex_py_float) ex_games)) =
     mset (map (soft_row_of ex_people_of ex_py_float) ex_games) \<and>
   soft_matchups_main ex_schedule ex_people_of ex_py_float =
     Printed (sort_values_desc Softness (map (soft_row_of ex_people_of ex_py_float) ex_games))"
proof -
  let ?rows = "map (soft_row_of ex_people_of ex_py_float) ex_games"
  let ?out = "sort_values_desc Softness ?rows"
  note t = softness_max_and_order [where people_of = ex_people_of and py_float = ex_py_float
      and resp = ex_schedule and rows = ?rows and a = "7 / 2" and b = "24 / 5"
      and g = "ex_games ! 1"]
  have out: "map Softness ?out = [Some (24 / 5), Some (7 / 2), None]"
    by (simp add: ex_games_def soft_row_of_def Let_def ex_side_def pitcher_id_def ex_eras
      softness_of_cases sort_values_desc_def)
  have n: "length ?rows = 3" by (simp add: ex_games_def)
  have at: "Softness (?out ! 2) = None" "Softness (?out ! 1) \<noteq> None"
    "Softness (?out ! 0) = Some (24 / 5)" "Softness (?out ! 1) = Some (7 / 2)"
    using out n by (simp_all add: list_eq_iff_nth_eq)
  have last: "(1::nat) < 2"
    using t [THEN conjunct2, THEN conjunct2, THEN conjunct2, THEN conjunct2, THEN conjunct2,
        THEN conjunct2, THEN conjunct2, THEN conjunct2, THEN conjunct2, THEN conjunct1,
        rule_format, of 2 1] at n
    by simp
  have desc: "(7 / 2 :: rat) \<le> 24 / 5"
    using t [THEN conjunct2, THEN conjunct2, THEN conjunct2, THEN conjunct2, THEN conjunct2,
        THEN conjunct2, THEN conjunct2, THEN conjunct2, THEN conjunct2, THEN conjunct2,
        rule_format, of 0 1 "24 / 5" "7 / 2"] at n
    by simp
  have sched: "fetch_schedule ex_schedule = ex_games" "ex_games \<noteq> []"
    by (simp_all add: fetch_schedule_def ex_schedule_def get_list_def ex_games_def)
  have main: "soft_matchups_main ex_schedule ex_people_of ex_py_float = Printed ?out"
    using t sched by simp
  have perm: "mset ?out = mset ?rows"
    using t by blast
  show ?thesis
    using ex_soft_rows out perm main last desc by (intro conjI)
qed

section \<open>A schedule with no date entry\<close>

text \<open>
  Claim C10.  When the schedule response has no date entry (the list is empty or the key is
  missing), \<^verbatim>\<open>fetch_today_matchups\<close> raises \<^verbatim>\<open>IndexError\<close>, whatever the pitcher leaderboard
  is, while \<^verbatim>\<open>fetch_schedule\<close> returns the empty list of games and the softness ranker
  reports that there is no game.
\<close>

theorem empty_dates_disagreement:
  "get_list (dates resp) = [] \<longrightarrow>
     fetch_today_matchups resp pitchers = Inl IndexError \<and>
     fetch_schedule resp = [] \<and>
     soft_matchups_main resp people_of py_float = No_Games_Found"
  by (simp add: fetch_today_matchups_def fetch_schedule_def soft_matchups_main_def)

theorem empty_dates_disagreement_witness:
  "get_list (dates ex_no_dates) = [] \<and>
   fetch_today_matchups ex_no_dates ex_pitchers = Inl IndexError \<and>
   fetch_schedule ex_no_dates = [] \<and>
   soft_matchups_main ex_no_dates ex_people_of ex_py_float = No_Games_Found"
proof -
  have h: "get_list (dates ex_no_dates) = []"
    by (simp add: ex_no_dates_def get_list_def)
  show ?thesis
    using h empty_dates_disagreement [of ex_no_dates ex_pitchers ex_people_of ex_py_float]
    by simp
qed

section \<open>Missing optional fields\<close>

lemma find_home_run_event_find:
  "find_home_run_event evs =
     (case find (\<lambda>ev. event_description ev = Some ''home_run'') evs of
        None \<Rightarrow> (None, None)
      | Some ev \<Rightarrow>
          (case hitData ev of
             None \<Rightarrow> (None, None)
           | Some h \<Rightarrow> (launchSpeed h, totalDistance h)))"
  by (induction evs) simp_all

lemma homer_of_fields:
  "H_Date (homer_of dstr pl) = dstr"
  "H_Batter (homer_of dstr pl) = fp_fullName (pm_batter (matchup pl))"
  "Pitcher (homer_of dstr pl) = fp_fullName (pm_pitcher (matchup pl))"
  "Pitch (homer_of dstr pl) = pitchType (matchup pl)"
  "Exit_Vel (homer_of dstr pl) = fst (find_home_run_event (get_list (playEvents pl)))"
  "Distance (homer_of dstr pl) = snd (find_home_run_event (get_list (playEvents pl)))"
  by (simp_all add: homer_of_def Let_def split: prod.splits)

lemma starter_cells:
  "Home_Starter_ID (add_starter_stats sm (matchup_of g)) =
     pitcher_id_or_empty (probablePitcher (home g))"
  "Away_Starter_ID (add_starter_stats sm (matchup_of g)) =
     pitcher_id_or_empty (probablePitcher (away g))"
  "Home_ERA (add_starter_stats sm (matchup_of g)) =
     era_cell sm (pitcher_id_or_empty (probablePitcher (home g)))"
  "Home_SO (add_starter_stats sm (matchup_of g)) =
     so_cell sm (pitcher_id_or_empty (probablePitcher (home g)))"
  "Away_ERA (add_starter_stats sm (matchup_of g)) =
     era_cell sm (pitcher_id_or_empty (probablePitcher (away g)))"
  "Away_SO (add_starter_stats sm (matchup_of g)) =
     so_cell sm (pitcher_id_or_empty (probablePitcher (away g)))"
  "Home_Starter (add_starter_stats sm (matchup_of g)) = pitcher_name (probablePitcher (home g))"
  "Away_Starter (add_starter_stats sm (matchup_of g)) = pitcher_name (probablePitcher (away g))"
  by (simp_all add: add_starter_stats_def matchup_of_def matchup_base.defs matchup_row.defs)

lemma cells_of_side:
  "pitcher_id pp = None \<Longrightarrow>
     pitcher_id_or_empty pp = CStr '''' \<and> era_cell sm (pitcher_id_or_empty pp) = CStr '''' \<and>
     so_cell sm (pitcher_id_or_empty pp) = CStr ''''"
  "pitcher_id pp = Some i \<Longrightarrow> sm i = None \<Longrightarrow>
     pitcher_id_or_empty pp = CInt i \<and> era_cell sm (pitcher_id_or_empty pp) = CStr '''' \<and>
     so_cell sm (pitcher_id_or_empty pp) = CStr ''''"
  "pitcher_id pp = Some i \<Longrightarrow> sm i = Some r \<Longrightarrow>
     pitcher_id_or_empty pp = CInt i \<and> era_cell sm (pitcher_id_or_empty pp) = CStr (P_ERA r) \<and>
     so_cell sm (pitcher_id_or_empty pp) = CInt (P_SO r)"
  "pitcher_id_or_empty pp \<noteq> CNone" "era_cell sm c \<noteq> CNone" "so_cell sm c \<noteq> CNone"
  by (auto simp: pitcher_id_def pitcher_id_or_empty_def era_cell_def so_cell_def lookup_stats_def
      split: option.splits cell.splits)

lemma fetch_today_matchups_rows:
  assumes "get_list (dates resp) = d # ds" "get_list (games d) = gs" "gs \<noteq> []"
    "fetch_top50_pitchers pitchers = Inr ps" "to_dict_index ps = Inr sm"
  shows "fetch_today_matchups resp pitchers =
     Inr (map (\<lambda>g. add_starter_stats sm (matchup_of g)) gs)"
  using assms by (simp add: fetch_today_matchups_def Let_def comp_def)

lemma ex_pitcher_rows:
  "fetch_top50_pitchers ex_pitchers =
     Inr [\<lparr>P_Pitcher = ''P'', P_Player_ID = 10, P_SO = 90, P_ERA = ''3.50'', P_Games = 12,
           P_IP = ''70.1'', P_Wins = 6, P_Losses = 3\<rparr>]"
  by (simp add: fetch_top50_pitchers_def first_splits_def get_list_def ex_pitchers_def
      pitcher_row_of_def)

lemma ex_to_dict: "to_dict_index [ex_pitcher_row] = Inr ex_stats_map"
  by (simp add: to_dict_index_def ex_stats_map_def ex_pitcher_row_def)

text \<open>
  Claim C7, as amended.  In the matchup builder a missing starter identifier is the empty
  string, and a missing identifier or an identifier that is not in the pitcher leaderboard
  gives the empty string for the ERA and for the strikeouts of that side; a missing starter
  name is the empty string too.  The home-run events keep an absent exit velocity or
  distance absent (the day-range fetch takes them from the hit data of the first sub-event
  described as a home run, the most-recent-day fetch from the feed's record), and the
  softness ranker keeps the ERA of a missing starter absent.
\<close>

theorem missing_fields_as_coded:
  "(pitcher_id (probablePitcher (home g)) = None \<longrightarrow>
      Home_Starter_ID (add_starter_stats sm (matchup_of g)) = CStr '''' \<and>
      Home_ERA (add_starter_stats sm (matchup_of g)) = CStr '''' \<and>
      Home_SO (add_starter_stats sm (matchup_of g)) = CStr '''') \<and>
   (pitcher_id (probablePitcher (home g)) = Some i \<and> sm i = None \<longrightarrow>
      Home_ERA (add_starter_stats sm (matchup_of g)) = CStr '''' \<and>
      Home_SO (add_starter_stats sm (matchup_of g)) = CStr '''') \<and>
   (pitcher_id (probablePitcher (away g)) = None \<longrightarrow>
      Away_Starter_ID (add_starter_stats sm (matchup_of g)) = CStr '''' \<and>
      Away_ERA (add_starter_stats sm (matchup_of g)) = CStr '''' \<and>
      Away_SO (add_starter_stats sm (matchup_of g)) = CStr '''') \<and>
   (pitcher_id (probablePitcher (away g)) = Some j \<and> sm j = None \<longrightarrow>
      Away_ERA (add_starter_stats sm (matchup_of g)) = CStr '''' \<and>
      Away_SO (add_starter_stats sm (matchup_of g)) = CStr '''') \<and>
   (probablePitcher (home g) = None \<longrightarrow>
      Home_Starter (add_starter_stats sm (matchup_of g)) = '''') \<and>
   (probablePitcher (away g) = None \<longrightarrow>
      Away_Starter (add_starter_stats sm (matchup_of g)) = '''') \<and>
   (get_list (dates resp) = d # ds \<and> get_list (games d) = gs \<and> gs \<noteq> [] \<and>
    fetch_top50_pitchers pitchers = Inr ps \<and> to_dict_index ps = Inr sm \<longrightarrow>
      fetch_today_matchups resp pitchers =
        Inr (map (\<lambda>g. add_starter_stats sm (matchup_of g)) gs)) \<and>
   Exit_Vel (homer_of dstr pl) = fst (find_home_run_event (get_list (playEvents pl))) \<and>
   Distance (homer_of dstr pl) = snd (find_home_run_event (get_list (playEvents pl))) \<and>
   find_home_run_event evs =
     (case find (\<lambda>ev. event_description ev = Some ''home_run'') evs of
        None \<Rightarrow> (None, None)
      | Some ev \<Rightarrow>
          (case hitData ev of
             None \<Rightarrow> (None, None)
           | Some h \<Rightarrow> (launchSpeed h, totalDistance h))) \<and>
   map Exit_Vel (fst (fetch_daily date_str runs)) = map hit_speed runs \<and>
   map Distance (fst (fetch_daily date_str runs)) = map hit_distance runs \<and>
   fetch_pitcher_era people_of py_float None = None \<and>
   S_Home_ERA (soft_row_of people_of py_float g) =
     fetch_pitcher_era people_of py_float (pitcher_id (probablePitcher (home g))) \<and>
   S_Away_ERA (soft_row_of people_of py_float g) =
     fetch_pitcher_era people_of py_float (pitcher_id (probablePitcher (away g)))"
proof -
  have names: "probablePitcher (home g) = None \<longrightarrow>
      Home_Starter (add_starter_stats sm (matchup_of g)) = ''''"
    "probablePitcher (away g) = None \<longrightarrow>
      Away_Starter (add_starter_stats sm (matchup_of g)) = ''''"
    by (simp_all add: starter_cells pitcher_name_def)
  have daily: "map Exit_Vel (fst (fetch_daily date_str runs)) = map hit_speed runs"
    "map Distance (fst (fetch_daily date_str runs)) = map hit_distance runs"
    by (simp_all add: fetch_daily_def comp_def)
  have soft: "fetch_pitcher_era people_of py_float None = None"
    "S_Home_ERA (soft_row_of people_of py_float g) =
       fetch_pitcher_era people_of py_float (pitcher_id (probablePitcher (home g)))"
    "S_Away_ERA (soft_row_of people_of py_float g) =
       fetch_pitcher_era people_of py_float (pitcher_id (probablePitcher (away g)))"
    by (simp_all add: fetch_pitcher_era_def soft_row_of_def Let_def)
  have frame: "get_list (dates resp) = d # ds \<and> get_list (games d) = gs \<and> gs \<noteq> [] \<and>
    fetch_top50_pitchers pitchers = Inr ps \<and> to_dict_index ps = Inr sm \<longrightarrow>
      fetch_today_matchups resp pitchers =
        Inr (map (\<lambda>g. add_starter_stats sm (matchup_of g)) gs)"
    using fetch_today_matchups_rows [of resp d ds gs pitchers ps sm] by blast
  have home_none: "pitcher_id (probablePitcher (home g)) = None \<longrightarrow>
      Home_Starter_ID (add_starter_stats sm (matchup_of g)) = CStr '''' \<and>
      Home_ERA (add_starter_stats sm (matchup_of g)) = CStr '''' \<and>
      Home_SO (add_starter_stats sm (matchup_of g)) = CStr ''''"
    using cells_of_side(1) [of "probablePitcher (home g)" sm] unfolding starter_cells by blast
  have home_miss: "pitcher_id (probablePitcher (home g)) = Some i \<and> sm i = None \<longrightarrow>
      Home_ERA (add_starter_stats sm (matchup_of g)) = CStr '''' \<and>
      Home_SO (add_starter_stats sm (matchup_of g)) = CStr ''''"
    using cells_of_side(2) [of "probablePitcher (home g)" i sm] unfolding starter_cells by blast
  have away_none: "pitcher_id (probablePitcher (away g)) = None \<longrightarrow>
      Away_Starter_ID (add_starter_stats sm (matchup_of g)) = CStr '''' \<and>
      Away_ERA (add_starter_stats sm (matchup_of g)) = CStr '''' \<and>
      Away_SO (add_starter_stats sm (matchup_of g)) = CStr ''''"
    using cells_of_side(1) [of "probablePitcher (away g)" sm] unfolding starter_cells by blast
  have away_miss: "pitcher_id (probablePitcher (away g)) = Some j \<and> sm j = None \<longrightarrow>
      Away_ERA (add_starter_stats sm (matchup_of g)) = CStr '''' \<and>
      Away_SO (add_starter_stats sm (matchup_of g)) = CStr ''''"
    using cells_of_side(2) [of "probablePitcher (away g)" j sm] unfolding starter_cells by blast
  show ?thesis
    using home_none home_miss away_none away_miss names frame homer_of_fields(5,6) [of dstr pl]
      find_home_run_event_find [of evs] daily soft
    by (intro conjI)
qed

theorem missing_fields_as_coded_witness:
  "Home_ERA (add_starter_stats ex_stats_map (matchup_of (ex_games ! 0))) = CStr '''' \<and>
   Home_SO (add_starter_stats ex_stats_map (matchup_of (ex_games ! 0))) = CStr '''' \<and>
   Home_Starter (add_starter_stats ex_stats_map (matchup_of (ex_games ! 0))) = '''' \<and>
   Away_ERA (add_starter_stats ex_stats_map (matchup_of (ex_games ! 1))) = CStr '''' \<and>
   Away_SO (add_starter_stats ex_stats_map (matchup_of (ex_games ! 1))) = CStr '''' \<and>
   fetch_today_matchups ex_schedule ex_pitchers =
     Inr (map (\<lambda>g. add_starter_stats ex_stats_map (matchup_of g)) ex_games)"
proof -
  have g0: "pitcher_id (probablePitcher (home (ex_games ! 0))) = None"
    "probablePitcher (home (ex_games ! 0)) = None"
    by (simp_all add: ex_games_def ex_side_def pitcher_id_def)
  have g1: "pitcher_id (probablePitcher (away (ex_games ! 1))) = Some 20" "ex_stats_map 20 = None"
    by (simp_all add: ex_games_def ex_side_def pitcher_id_def ex_stats_map_def)
  have sched: "get_list (dates ex_schedule) = [\<lparr>games = Some ex_games\<rparr>]"
    "get_list (games \<lparr>games = Some ex_games\<rparr>) = ex_games" "ex_games \<noteq> []"
    by (simp_all add: ex_schedule_def get_list_def ex_games_def)
  have ps: "fetch_top50_pitchers ex_pitchers = Inr [ex_pitcher_row]"
    by (simp add: ex_pitcher_rows ex_pitcher_row_def)
  note t0 = missing_fields_as_coded [where g = "ex_games ! 0" and sm = ex_stats_map
      and resp = ex_schedule and d = "\<lparr>games = Some ex_games\<rparr>" and ds = "[]"
      and gs = ex_games and pitchers = ex_pitchers and ps = "[ex_pitcher_row]"]
  note t1 = missing_fields_as_coded [where g = "ex_games ! 1" and sm = ex_stats_map and j = 20]
  have a: "Home_ERA (add_starter_stats ex_stats_map (matchup_of (ex_games ! 0))) = CStr ''''"
    "Home_SO (add_starter_stats ex_stats_map (matchup_of (ex_games ! 0))) = CStr ''''"
    "Home_Starter (add_starter_stats ex_stats_map (matchup_of (ex_games ! 0))) = ''''"
    using t0 g0 by blast+
  have b: "Away_ERA (add_starter_stats ex_stats_map (matchup_of (ex_games ! 1))) = CStr ''''"
    "Away_SO (add_starter_stats ex_stats_map (matchup_of (ex_games ! 1))) = CStr ''''"
    using t1 g1 by blast+
  have c: "fetch_today_matchups ex_schedule ex_pitchers =
     Inr (map (\<lambda>g. add_starter_stats ex_stats_map (matchup_of g)) ex_games)"
    using t0 sched ps ex_to_dict by blast
  show ?thesis
    using a b c by (intro conjI)
qed

text \<open>
  The claim as the specification states it fails in the matchup builder: for a game with no
  probable pitcher, and for a starter who is not in the pitcher leaderboard, the ERA and the
  strikeouts are the empty string, and so is the identifier of a missing starter.
\<close>

theorem matchup_builder_empty_string:
  "map_sum id (map (\<lambda>r. (Home_Starter_ID r, Home_ERA r, Home_SO r, Away_Starter_ID r, Away_ERA r, Away_SO r)))
     (fetch_today_matchups ex_schedule ex_pitchers) =
   Inr [(CStr '''', CStr '''', CStr '''', CStr '''', CStr '''', CStr ''''),
        (CInt 10, CStr ''3.50'', CInt 90, CInt 20, CStr '''', CStr ''''),
        (CStr '''', CStr '''', CStr '''', CInt 10, CStr ''3.50'', CInt 90)]"
  by (simp add: fetch_today_matchups_def ex_schedule_def get_list_def ex_games_def Let_def
      ex_pitcher_rows to_dict_index_def starter_cells ex_side_def pitcher_id_or_empty_def
      era_cell_def so_cell_def lookup_stats_def)

section \<open>Day-range event fetch\<close>

lemma plays_rows_eq:
  "plays_rows dstr pls =
     map (homer_of dstr) (filter (\<lambda>pl. eventType (result pl) = ''home_run'') pls)"
  by (induction pls) simp_all

lemma games_rows_eq:
  "games_rows dstr feed_of pks =
     concat (map (\<lambda>pk. map (homer_of dstr) (home_run_plays (feed_of pk))) pks)"
  by (induction pks) (simp_all add: plays_rows_eq home_run_plays_def)

text \<open>
  Claim C9.  The day-range fetch returns the empty frame when the schedule has no date
  entry or the day has no game.  Otherwise it returns, for the games of the first date entry
  (the schedule is requested for one day) in their order, one row for every play of the
  game's feed whose event type is \<^verbatim>\<open>home_run\<close>, in the order of the feed, so the number of
  rows is the number of such plays over all games.  The exit velocity and the distance of a
  row are those of the hit data of the first sub-event of the play that is described as
  \<^verbatim>\<open>home_run\<close>; they are absent when there is no such sub-event or it has no hit data.
  The only error is that of a date entry that has no \<^verbatim>\<open>games\<close> key at all, which is not
  a day without games: the service then sends no date entry.
\<close>

theorem daily_homers_all_games:
  "(get_list (dates resp) = [] \<longrightarrow> fetch_daily_homers_for dstr resp feed_of = Inr []) \<and>
   (get_list (dates resp) = d # ds \<and> games d = Some gs \<longrightarrow>
      fetch_daily_homers_for dstr resp feed_of =
        Inr (concat (map (\<lambda>g. map (homer_of dstr) (home_run_plays (feed_of (gamePk g)))) gs)) \<and>
      (\<exists>rows. fetch_daily_homers_for dstr resp feed_of = Inr rows \<and>
         length rows = (\<Sum>g\<leftarrow>gs. length (home_run_plays (feed_of (gamePk g)))))) \<and>
   (get_list (dates resp) = d # ds \<and> games d = Some [] \<longrightarrow>
      fetch_daily_homers_for dstr resp feed_of = Inr []) \<and>
   (get_list (dates resp) = d # ds \<and> games d = None \<longrightarrow>
      fetch_daily_homers_for dstr resp feed_of = Inl KeyError) \<and>
   Exit_Vel (homer_of dstr pl) =
     (case find (\<lambda>ev. event_description ev = Some ''home_run'') (get_list (playEvents pl)) of
        None \<Rightarrow> None
      | Some ev \<Rightarrow> (case hitData ev of None \<Rightarrow> None | Some h \<Rightarrow> launchSpeed h)) \<and>
   Distance (homer_of dstr pl) =
     (case find (\<lambda>ev. event_description ev = Some ''home_run'') (get_list (playEvents pl)) of
        None \<Rightarrow> None
      | Some ev \<Rightarrow> (case hitData ev of None \<Rightarrow> None | Some h \<Rightarrow> totalDistance h))"
proof -
  have none: "get_list (dates resp) = [] \<longrightarrow> fetch_daily_homers_for dstr resp feed_of = Inr []"
    by (simp add: fetch_daily_homers_for_def)
  have rows: "fetch_daily_homers_for dstr resp feed_of =
        Inr (concat (map (\<lambda>g. map (homer_of dstr) (home_run_plays (feed_of (gamePk g)))) gs))"
    if "get_list (dates resp) = d # ds" "games d = Some gs" for gs
    using that by (simp add: fetch_daily_homers_for_def games_rows_eq comp_def)
  have len: "length (concat (map (\<lambda>g. map (homer_of dstr) (home_run_plays (feed_of (gamePk g)))) gs))
      = (\<Sum>g\<leftarrow>gs. length (home_run_plays (feed_of (gamePk g))))" for gs
    by (simp add: length_concat comp_def)
  have all: "get_list (dates resp) = d # ds \<and> games d = Some gs \<longrightarrow>
      fetch_daily_homers_for dstr resp feed_of =
        Inr (concat (map (\<lambda>g. map (homer_of dstr) (home_run_plays (feed_of (gamePk g)))) gs)) \<and>
      (\<exists>rows. fetch_daily_homers_for dstr resp feed_of = Inr rows \<and>
         length rows = (\<Sum>g\<leftarrow>gs. length (home_run_plays (feed_of (gamePk g)))))"
    using rows [of gs] len [of gs] by simp
  have zero: "get_list (dates resp) = d # ds \<and> games d = Some [] \<longrightarrow>
      fetch_daily_homers_for dstr resp feed_of = Inr []"
    using rows [of "[]"] by simp
  have nokey: "get_list (dates resp) = d # ds \<and> games d = None \<longrightarrow>
      fetch_daily_homers_for dstr resp feed_of = Inl KeyError"
    by (simp add: fetch_daily_homers_for_def)
  have ev: "Exit_Vel (homer_of dstr pl) =
     (case find (\<lambda>ev. event_description ev = Some ''home_run'') (get_list (playEvents pl)) of
        None \<Rightarrow> None
      | Some ev \<Rightarrow> (case hitData ev of None \<Rightarrow> None | Some h \<Rightarrow> launchSpeed h))"
    by (simp add: homer_of_fields find_home_run_event_find split: option.splits)
  have dist: "Distance (homer_of dstr pl) =
     (case find (\<lambda>ev. event_description ev = Some ''home_run'') (get_list (playEvents pl)) of
        None \<Rightarrow> None
      | Some ev \<Rightarrow> (case hitData ev of None \<Rightarrow> None | Some h \<Rightarrow> totalDistance h))"
    by (simp add: homer_of_fields find_home_run_event_find split: option.splits)
  show ?thesis
    using none all zero nokey ev dist by (intro conjI)
qed

theorem daily_homers_all_games_witness:
  "fetch_daily_homers_for ''2025-04-01'' ex_no_dates ex_feed_of = Inr [] \<and>
   map_sum id (map (\<lambda>r. (Exit_Vel r, Distance r)))
     (fetch_daily_homers_for ''2025-04-01'' ex_schedule ex_feed_of) =
     Inr [(Some 105, Some 420), (None, None), (None, None)]"
proof -
  have a: "get_list (dates ex_no_dates) = []"
    by (simp add: ex_no_dates_def get_list_def)
  have b: "get_list (dates ex_schedule) = [\<lparr>games = Some ex_games\<rparr>]"
    "games \<lparr>games = Some ex_games\<rparr> = Some ex_games"
    by (simp_all add: ex_schedule_def get_list_def)
  have hr: "home_run_plays (ex_feed_of 1) =
      [ex_play ''home_run''
                 [ex_event ''ball'' None,
                  ex_event ''home_run'' (Some \<lparr>launchSpeed = Some 105, totalDistance = Some 420\<rparr>),
                  ex_event ''home_run'' (Some \<lparr>launchSpeed = Some 99, totalDistance = Some 380\<rparr>)]]"
    "home_run_plays (ex_feed_of 2) = [ex_play ''home_run'' [ex_event ''ball'' None]]"
    "home_run_plays (ex_feed_of 3) = [ex_play ''home_run'' [ex_event ''ball'' None]]"
    by (simp_all add: home_run_plays_def ex_feed_of_def ex_play_def)
  note t = daily_homers_all_games [where resp = ex_schedule and d = "\<lparr>games = Some ex_games\<rparr>"
      and ds = "[]" and gs = ex_games and dstr = "''2025-04-01''" and feed_of = ex_feed_of]
  have c: "fetch_daily_homers_for ''2025-04-01'' ex_schedule ex_feed_of =
      Inr (concat (map (\<lambda>g. map (homer_of ''2025-04-01'') (home_run_plays (ex_feed_of (gamePk g))))
        ex_games))"
    using t b by simp
  have d: "map_sum id (map (\<lambda>r. (Exit_Vel r, Distance r)))
     (fetch_daily_homers_for ''2025-04-01'' ex_schedule ex_feed_of) =
     Inr [(Some 105, Some 420), (None, None), (None, None)]"
    unfolding c
    by (simp add: ex_games_def hr homer_of_fields ex_play_def get_list_def ex_event_def
        event_description_def)
  have e: "fetch_daily_homers_for ''2025-04-01'' ex_no_dates ex_feed_of = Inr []"
    using daily_homers_all_games [where resp = ex_no_dates and dstr = "''2025-04-01''"
        and feed_of = ex_feed_of] a by simp
  show ?thesis
    using d e by simp
qed

section \<open>Report writer\<close>















end
